theory Spec2Isabelle
  imports Main
begin

section \<open>Python values handed back by the LinkedIn client\<close>

text \<open>
  The tool functions of \<^verbatim>\<open>src/mcp_linkedin/client.py\<close> receive JSON-like data from the
  external \<^verbatim>\<open>linkedin_api\<close> client and turn it into text. The data is dynamically
  typed, so it is modelled by one datatype of Python values. A \<^verbatim>\<open>dict\<close> is an association
  list in insertion order with string keys; a lookup takes the first binding. A Python
  \<^verbatim>\<open>str\<close> is a \<open>string\<close> holding its UTF-8 bytes (the source file is UTF-8), so the
  accented letters of the Spanish messages are two bytes each. Floats, and integers of
  more than 4300 digits (which \<^verbatim>\<open>str\<close> refuses to print), are not part of the model.
\<close>

datatype pyval =
    PNone
  | PBool bool
  | PInt int
  | PStr string
  | PList "pyval list"
  | PDict "(string \<times> pyval) list"

text \<open>
  Instances of \<^verbatim>\<open>Exception\<close>: the built-in errors the tool functions can run into
  themselves (with the messages of Python 3.12, the first version that reads the
  nested quotes of the source's f-strings), and \<open>ClientError\<close> for any other exception
  class the external client raises, carrying its description \<^verbatim>\<open>str(e)\<close>. What is not
  an \<^verbatim>\<open>Exception\<close> (\<^verbatim>\<open>KeyboardInterrupt\<close>, \<^verbatim>\<open>SystemExit\<close>) is outside the model.
\<close>

datatype exn =
    KeyError pyval
  | IndexError string
  | AttributeError string
  | TypeError string
  | ClientError string

definition sq :: string where
  "sq = [CHR 0x27]"

definition hex_digit :: "nat \<Rightarrow> char" where
  "hex_digit n = ''0123456789abcdef'' ! (n mod 16)"

fun digits_of_nat :: "nat \<Rightarrow> string" where
  "digits_of_nat n =
     (if n < 10 then [hex_digit n] else digits_of_nat (n div 10) @ [hex_digit (n mod 10)])"

definition str_of_int :: "int \<Rightarrow> string" where
  "str_of_int i = (if i < 0 then ''-'' @ digits_of_nat (nat (- i)) else digits_of_nat (nat i))"

text \<open>
  A \<^verbatim>\<open>str\<close> is held as its UTF-8 bytes. The characters of a text are the groups of
  bytes a lead byte announces (a lone surrogate, which Python can hold, in its three
  bytes); \<open>code_point\<close> reads the number of a character off its bytes.
\<close>

definition utf8_width :: "char \<Rightarrow> nat" where
  "utf8_width b =
     (let n = (of_char b :: nat)
      in if n < 0xC0 then 1 else if n < 0xE0 then 2 else if n < 0xF0 then 3
         else if n < 0xF8 then 4 else 1)"

function utf8_chars :: "string \<Rightarrow> string list" where
  "utf8_chars [] = []"
| "utf8_chars (b # bs) =
     (b # take (utf8_width b - 1) bs) # utf8_chars (drop (utf8_width b - 1) bs)"
  by pat_completeness auto
termination
  by (relation "measure length") auto

definition code_point :: "string \<Rightarrow> nat" where
  "code_point ch = (case ch of
       [] \<Rightarrow> 0
     | b # bs \<Rightarrow>
         foldl (\<lambda>n c. n * 64 + of_char c mod 64)
           (if bs = [] then of_char b else of_char b mod 2 ^ (7 - length (b # bs))) bs)"

definition hex_pad :: "nat \<Rightarrow> nat \<Rightarrow> string" where
  "hex_pad k n = map (\<lambda>i. hex_digit (n div 16 ^ i)) (rev [0..<k])"

text \<open>
  Which characters from U+0080 on are printable (\<^verbatim>\<open>str.isprintable\<close>) is a table of
  the interpreter's Unicode database. It is not part of the repository and is taken as
  the parameter \<open>pr\<close>, a predicate on code points; a run takes it from its world.

  \<^verbatim>\<open>repr\<close> of a \<^verbatim>\<open>str\<close>: single quotes unless the text holds a single quote and no
  double quote; the quote and the backslash are escaped, tab, newline and carriage
  return get their letter, the other ASCII control characters \<^verbatim>\<open>\xhh\<close>; a character
  from U+0080 on is kept when it is printable and written \<^verbatim>\<open>\xhh\<close>, \<^verbatim>\<open>\uhhhh\<close> or
  \<^verbatim>\<open>\Uhhhhhhhh\<close> otherwise.
\<close>

definition repr_quote :: "string \<Rightarrow> char" where
  "repr_quote s = (if CHR 0x27 \<in> set s \<and> CHR 0x22 \<notin> set s then CHR 0x22 else CHR 0x27)"

definition repr_ascii :: "char \<Rightarrow> char \<Rightarrow> string" where
  "repr_ascii quote c =
     (if c = quote \<or> c = CHR 0x5C then [CHR 0x5C, c]
      else if c = CHR 0x09 then [CHR 0x5C, CHR ''t'']
      else if c = CHR 0x0A then [CHR 0x5C, CHR ''n'']
      else if c = CHR 0x0D then [CHR 0x5C, CHR ''r'']
      else if (of_char c :: nat) < 32 \<or> c = CHR 0x7F
        then [CHR 0x5C, CHR ''x''] @ hex_pad 2 (of_char c)
      else [c])"

definition repr_escape :: "nat \<Rightarrow> string" where
  "repr_escape cp =
     (if cp < 0x100 then [CHR 0x5C, CHR ''x''] @ hex_pad 2 cp
      else if cp < 0x10000 then [CHR 0x5C, CHR ''u''] @ hex_pad 4 cp
      else [CHR 0x5C, CHR ''U''] @ hex_pad 8 cp)"

definition repr_char :: "(nat \<Rightarrow> bool) \<Rightarrow> char \<Rightarrow> string \<Rightarrow> string" where
  "repr_char pr quote ch =
     (if code_point ch < 0x80 then concat (map (repr_ascii quote) ch)
      else if pr (code_point ch) then ch
      else repr_escape (code_point ch))"

definition repr_str :: "(nat \<Rightarrow> bool) \<Rightarrow> string \<Rightarrow> string" where
  "repr_str pr s =
     (let q = repr_quote s in [q] @ concat (map (repr_char pr q) (utf8_chars s)) @ [q])"

fun join :: "string \<Rightarrow> string list \<Rightarrow> string" where
  "join sep [] = []"
| "join sep [x] = x"
| "join sep (x # y # ys) = x @ sep @ join sep (y # ys)"

fun py_repr :: "(nat \<Rightarrow> bool) \<Rightarrow> pyval \<Rightarrow> string" where
  "py_repr pr PNone = ''None''"
| "py_repr pr (PBool b) = (if b then ''True'' else ''False'')"
| "py_repr pr (PInt i) = str_of_int i"
| "py_repr pr (PStr s) = repr_str pr s"
| "py_repr pr (PList xs) = ''['' @ join '', '' (map (py_repr pr) xs) @ '']''"
| "py_repr pr (PDict kvs) =
     ''{'' @ join '', '' (map (\<lambda>(k, v). repr_str pr k @ '': '' @ py_repr pr v) kvs) @ ''}''"

text \<open>What an f-string replacement field \<^verbatim>\<open>{v}\<close> inserts: \<^verbatim>\<open>str(v)\<close>.\<close>

definition py_str :: "(nat \<Rightarrow> bool) \<Rightarrow> pyval \<Rightarrow> string" where
  "py_str pr v = (case v of PStr s \<Rightarrow> s | _ \<Rightarrow> py_repr pr v)"

definition exn_str :: "(nat \<Rightarrow> bool) \<Rightarrow> exn \<Rightarrow> string" where
  "exn_str pr e = (case e of
       KeyError k \<Rightarrow> py_repr pr k
     | IndexError m \<Rightarrow> m
     | AttributeError m \<Rightarrow> m
     | TypeError m \<Rightarrow> m
     | ClientError m \<Rightarrow> m)"

definition type_name :: "pyval \<Rightarrow> string" where
  "type_name v = (case v of
       PNone \<Rightarrow> ''NoneType''
     | PBool _ \<Rightarrow> ''bool''
     | PInt _ \<Rightarrow> ''int''
     | PStr _ \<Rightarrow> ''str''
     | PList _ \<Rightarrow> ''list''
     | PDict _ \<Rightarrow> ''dict'')"

definition no_attribute :: "pyval \<Rightarrow> string \<Rightarrow> exn" where
  "no_attribute v attr =
     AttributeError (sq @ type_name v @ sq @ '' object has no attribute '' @ sq @ attr @ sq)"

definition bindE :: "exn + 'a \<Rightarrow> ('a \<Rightarrow> exn + 'b) \<Rightarrow> exn + 'b" where
  "bindE m f = (case m of Inl e \<Rightarrow> Inl e | Inr x \<Rightarrow> f x)"

text \<open>\<^verbatim>\<open>v.get(key, default)\<close>: only a dict has the method.\<close>

definition py_get :: "pyval \<Rightarrow> string \<Rightarrow> pyval \<Rightarrow> exn + pyval" where
  "py_get v key dflt = (case v of
       PDict kvs \<Rightarrow> Inr (case map_of kvs key of Some x \<Rightarrow> x | None \<Rightarrow> dflt)
     | _ \<Rightarrow> Inl (no_attribute v ''get''))"

text \<open>\<^verbatim>\<open>v["key"]\<close>, indexing by a string.\<close>

definition py_getitem :: "pyval \<Rightarrow> string \<Rightarrow> exn + pyval" where
  "py_getitem v key = (case v of
       PDict kvs \<Rightarrow> (case map_of kvs key of Some x \<Rightarrow> Inr x | None \<Rightarrow> Inl (KeyError (PStr key)))
     | PList _ \<Rightarrow> Inl (TypeError ''list indices must be integers or slices, not str'')
     | PStr _ \<Rightarrow> Inl (TypeError (''string indices must be integers, not '' @ sq @ ''str'' @ sq))
     | _ \<Rightarrow> Inl (TypeError (sq @ type_name v @ sq @ '' object is not subscriptable'')))"

text \<open>\<^verbatim>\<open>v[0]\<close>. The keys of a dict are strings, so \<^verbatim>\<open>0\<close> is never one of them.\<close>

definition py_first :: "pyval \<Rightarrow> exn + pyval" where
  "py_first v = (case v of
       PList xs \<Rightarrow> (case xs of [] \<Rightarrow> Inl (IndexError ''list index out of range'') | x # _ \<Rightarrow> Inr x)
     | PStr s \<Rightarrow> (case utf8_chars s of [] \<Rightarrow> Inl (IndexError ''string index out of range'')
                  | ch # _ \<Rightarrow> Inr (PStr ch))
     | PDict _ \<Rightarrow> Inl (KeyError (PInt 0))
     | _ \<Rightarrow> Inl (TypeError (sq @ type_name v @ sq @ '' object is not subscriptable'')))"

text \<open>
  The items a \<^verbatim>\<open>for\<close> loop over \<open>v\<close> visits: the elements of a list, the keys of a dict,
  the characters of a string.
\<close>

definition py_iter :: "pyval \<Rightarrow> exn + pyval list" where
  "py_iter v = (case v of
       PList xs \<Rightarrow> Inr xs
     | PDict kvs \<Rightarrow> Inr (map (\<lambda>(k, _). PStr k) kvs)
     | PStr s \<Rightarrow> Inr (map PStr (utf8_chars s))
     | _ \<Rightarrow> Inl (TypeError (sq @ type_name v @ sq @ '' object is not iterable'')))"

text \<open>\<^verbatim>\<open>s.split(sep)\<close> for a one-character separator, and \<^verbatim>\<open>parts[-1]\<close>.\<close>

fun str_split :: "char \<Rightarrow> string \<Rightarrow> string list" where
  "str_split sep [] = [[]]"
| "str_split sep (c # cs) =
     (let r = str_split sep cs in if c = sep then [] # r else (c # hd r) # tl r)"

definition py_split :: "pyval \<Rightarrow> char \<Rightarrow> exn + string list" where
  "py_split v sep = (case v of
       PStr s \<Rightarrow> Inr (str_split sep s)
     | _ \<Rightarrow> Inl (no_attribute v ''split''))"

definition py_last :: "string list \<Rightarrow> exn + string" where
  "py_last parts = (case parts of [] \<Rightarrow> Inl (IndexError ''list index out of range'')
                    | _ # _ \<Rightarrow> Inr (last parts))"

section \<open>The external client and what a tool call does\<close>

text \<open>
  The methods of \<^verbatim>\<open>linkedin_api.Linkedin\<close> that the tools call, with the arguments
  passed. \<open>Get_profile None\<close> is the call without an argument.
\<close>

datatype call =
    Get_feed_posts int int
  | Search_jobs string string int int
  | Get_job string
  | Post string string
  | Get_profile "string option"
  | Get_company string
  | Get_connections int
  | Join_group string
  | Get_group_posts string int
  | Send_invitation string "string option"
  | Get_invitations int
  | Send_message "pyval list" string
  | Get_conversations int
  | Update_company_page string pyval
  | Company_share string pyval
  | Get_company_analytics string
  | Get_post_stats string

datatype event =
    Invoked call "exn + pyval"
  | Logged string

text \<open>
  The client is opaque: it answers a call with a value or raises, and the answer may
  depend on everything that happened before in this tool call.
\<close>

type_synonym client = "event list \<Rightarrow> call \<Rightarrow> exn + pyval"

text \<open>
  What a tool call depends on: the environment variables, the constructor of the
  external client, and the printable characters of the interpreter it runs in.
\<close>

record world =
  getenv :: "string \<Rightarrow> string option"
  Linkedin :: "string option \<Rightarrow> string option \<Rightarrow> exn + client"
  printable :: "nat \<Rightarrow> bool"

datatype outcome = Returned string | Raised exn

definition get_client :: "world \<Rightarrow> exn + client" where
  "get_client w = Linkedin w (getenv w ''LINKEDIN_EMAIL'') (getenv w ''LINKEDIN_PASSWORD'')"

definition invoke :: "client \<Rightarrow> call \<Rightarrow> event list \<Rightarrow> (exn + pyval) \<times> event list" where
  "invoke client c tr = (let r = client tr c in (r, tr @ [Invoked c r]))"

text \<open>\<^verbatim>\<open>client = get_client()\<close> stands before the \<^verbatim>\<open>try\<close> in every tool.\<close>

definition with_client :: "world \<Rightarrow> (client \<Rightarrow> outcome \<times> event list) \<Rightarrow> outcome \<times> event list" where
  "with_client w body = (case get_client w of Inl e \<Rightarrow> (Raised e, []) | Inr client \<Rightarrow> body client)"

text \<open>
  \<^verbatim>\<open>try: ... except Exception as e: logger.error(f"<prefix>{e}"); return f"Error: {e}"\<close>
\<close>

definition guarded ::
  "(nat \<Rightarrow> bool) \<Rightarrow> string \<Rightarrow> (exn + string) \<times> event list \<Rightarrow> outcome \<times> event list" where
  "guarded pr log_prefix body = (case body of
       (Inr s, tr) \<Rightarrow> (Returned s, tr)
     | (Inl e, tr) \<Rightarrow>
         (Returned (''Error: '' @ exn_str pr e), tr @ [Logged (log_prefix @ exn_str pr e)]))"

text \<open>Code outside any \<^verbatim>\<open>try\<close>: an exception leaves the tool.\<close>

definition unguarded :: "(exn + string) \<times> event list \<Rightarrow> outcome \<times> event list" where
  "unguarded body = (case body of
       (Inr s, tr) \<Rightarrow> (Returned s, tr)
     | (Inl e, tr) \<Rightarrow> (Raised e, tr))"

text \<open>One delegated call as the first step of a tool, then the formatting of its answer.\<close>

definition call_then ::
  "client \<Rightarrow> call \<Rightarrow> (pyval \<Rightarrow> exn + string) \<Rightarrow> (exn + string) \<times> event list" where
  "call_then client c fmt = (case invoke client c [] of
       (Inl e, tr) \<Rightarrow> (Inl e, tr)
     | (Inr v, tr) \<Rightarrow> (fmt v, tr))"

text \<open>\<^verbatim>\<open>for x in items: result += line(x)\<close>\<close>

fun for_lines :: "(pyval \<Rightarrow> exn + string) \<Rightarrow> pyval list \<Rightarrow> string \<Rightarrow> exn + string" where
  "for_lines line [] result = Inr result"
| "for_lines line (x # xs) result =
     (case line x of Inl e \<Rightarrow> Inl e | Inr s \<Rightarrow> for_lines line xs (result @ s))"

definition listing :: "string \<Rightarrow> (pyval \<Rightarrow> exn + string) \<Rightarrow> pyval \<Rightarrow> exn + string" where
  "listing header line v = bindE (py_iter v) (\<lambda>items. for_lines line items header)"

definition i_acute :: string where "i_acute = [CHR 0xC3, CHR 0xAD]"
definition o_acute :: string where "o_acute = [CHR 0xC3, CHR 0xB3]"
definition a_acute :: string where "a_acute = [CHR 0xC3, CHR 0xA1]"
definition n_tilde :: string where "n_tilde = [CHR 0xC3, CHR 0xB1]"

section \<open>The tools\<close>

text \<open>
  One function per tool of the source, under its name. The arguments have the types of
  the annotations (\<^verbatim>\<open>str = None\<close> is a \<open>string option\<close>, \<^verbatim>\<open>dict = None\<close> an optional
  association list); the default values are filled in by the caller. A tool yields its
  outcome, a returned text or a raised exception, and the events of the run: the
  delegated calls with their answers and the messages given to \<^verbatim>\<open>logger.error\<close>.
\<close>

subsection \<open>\<^verbatim>\<open>get_feed_posts\<close>: only the delegated call is inside the \<^verbatim>\<open>try\<close>\<close>

definition feed_line :: "(nat \<Rightarrow> bool) \<Rightarrow> pyval \<Rightarrow> exn + string" where
  "feed_line pr urn =
     bindE (py_getitem urn ''author_name'') (\<lambda>author.
     bindE (py_getitem urn ''content'') (\<lambda>content.
     Inr (''Post by '' @ py_str pr author @ '': '' @ py_str pr content @ ''\<newline>'')))"

definition get_feed_posts :: "world \<Rightarrow> int \<Rightarrow> int \<Rightarrow> outcome \<times> event list" where
  "get_feed_posts w limit offset = with_client w (\<lambda>client.
     case invoke client (Get_feed_posts limit offset) [] of
       (Inl e, tr) \<Rightarrow> (Returned (''Error: '' @ exn_str (printable w) e), tr @ [Logged (''Error: '' @ exn_str (printable w) e)])
     | (Inr post_urns, tr) \<Rightarrow> unguarded (listing [] (feed_line (printable w)) post_urns, tr))"

subsection \<open>\<^verbatim>\<open>search_jobs\<close>: no \<^verbatim>\<open>try\<close> at all\<close>

definition job_id_of :: "pyval \<Rightarrow> exn + string" where
  "job_id_of job =
     bindE (py_getitem job ''entityUrn'') (\<lambda>urn.
     bindE (py_split urn (CHR '':'')) py_last)"

definition job_block :: "(nat \<Rightarrow> bool) \<Rightarrow> pyval \<Rightarrow> exn + string" where
  "job_block pr job_data =
     bindE (py_getitem job_data ''title'') (\<lambda>job_title.
     bindE (py_getitem job_data ''companyDetails'') (\<lambda>details.
     bindE (py_getitem details
              ''com.linkedin.voyager.deco.jobs.web.shared.WebCompactJobPostingCompany'') (\<lambda>company.
     bindE (py_getitem company ''companyResolutionResult'') (\<lambda>resolution.
     bindE (py_getitem resolution ''name'') (\<lambda>company_name.
     bindE (py_getitem job_data ''description'') (\<lambda>description.
     bindE (py_getitem description ''text'') (\<lambda>job_description.
     bindE (py_getitem job_data ''formattedLocation'') (\<lambda>job_location.
     Inr (''Job by '' @ py_str pr job_title @ '' at '' @ py_str pr company_name @ '' in ''
          @ py_str pr job_location @ '': '' @ py_str pr job_description
          @ ''\<newline>\<newline>'')))))))))"

fun search_jobs_loop ::
  "(nat \<Rightarrow> bool) \<Rightarrow> client \<Rightarrow> pyval list \<Rightarrow> string \<Rightarrow> event list \<Rightarrow> (exn + string) \<times> event list" where
  "search_jobs_loop pr client [] job_results tr = (Inr job_results, tr)"
| "search_jobs_loop pr client (job # jobs) job_results tr =
     (case job_id_of job of
        Inl e \<Rightarrow> (Inl e, tr)
      | Inr job_id \<Rightarrow>
          (case invoke client (Get_job job_id) tr of
             (Inl e, tr') \<Rightarrow> (Inl e, tr')
           | (Inr job_data, tr') \<Rightarrow>
               (case job_block pr job_data of
                  Inl e \<Rightarrow> (Inl e, tr')
                | Inr block \<Rightarrow> search_jobs_loop pr client jobs (job_results @ block) tr')))"

definition search_jobs ::
  "world \<Rightarrow> string \<Rightarrow> int \<Rightarrow> int \<Rightarrow> string \<Rightarrow> outcome \<times> event list" where
  "search_jobs w keywords limit offset location = with_client w (\<lambda>client.
     unguarded
       (case invoke client (Search_jobs keywords location limit offset) [] of
          (Inl e, tr) \<Rightarrow> (Inl e, tr)
        | (Inr jobs, tr) \<Rightarrow>
            (case py_iter jobs of
               Inl e \<Rightarrow> (Inl e, tr)
             | Inr items \<Rightarrow> search_jobs_loop (printable w) client items [] tr)))"

subsection \<open>The guarded tools\<close>

definition create_share_update :: "world \<Rightarrow> string \<Rightarrow> string \<Rightarrow> outcome \<times> event list" where
  "create_share_update w comment visibility_code = with_client w (\<lambda>client.
     guarded (printable w) ''Error al crear el post: ''
       (call_then client (Post comment visibility_code)
          (\<lambda>post. Inr (''Post creado exitosamente: '' @ py_str (printable w) post))))"

definition profile_text :: "(nat \<Rightarrow> bool) \<Rightarrow> pyval \<Rightarrow> exn + string" where
  "profile_text pr profile =
     bindE (py_get profile ''firstName'' (PStr [])) (\<lambda>first_name.
     bindE (py_get profile ''lastName'' (PStr [])) (\<lambda>last_name.
     bindE (py_get profile ''headline'' (PStr [])) (\<lambda>headline.
     bindE (py_get profile ''locationName'' (PStr [])) (\<lambda>location_name.
     bindE (py_get profile ''industryName'' (PStr [])) (\<lambda>industry_name.
     Inr (''\<newline>        Nombre: '' @ py_str pr first_name @ '' '' @ py_str pr last_name
          @ ''\<newline>        T'' @ i_acute @ ''tulo: '' @ py_str pr headline
          @ ''\<newline>        Ubicaci'' @ o_acute @ ''n: '' @ py_str pr location_name
          @ ''\<newline>        Industria: '' @ py_str pr industry_name
          @ ''\<newline>        ''))))))"

text \<open>\<^verbatim>\<open>if public_id:\<close> is a test of truthiness: \<^verbatim>\<open>None\<close> and \<^verbatim>\<open>""\<close> are both false.\<close>

definition truthy :: "string option \<Rightarrow> bool" where
  "truthy public_id = (case public_id of None \<Rightarrow> False | Some s \<Rightarrow> s \<noteq> [])"

definition get_profile :: "world \<Rightarrow> string option \<Rightarrow> outcome \<times> event list" where
  "get_profile w public_id = with_client w (\<lambda>client.
     guarded (printable w) ''Error al obtener el perfil: ''
       (if truthy public_id
        then call_then client (Get_profile public_id) (profile_text (printable w))
        else call_then client (Get_profile None) (profile_text (printable w))))"

definition company_text :: "(nat \<Rightarrow> bool) \<Rightarrow> pyval \<Rightarrow> exn + string" where
  "company_text pr company =
     bindE (py_get company ''name'' (PStr [])) (\<lambda>name.
     bindE (py_get company ''industryName'' (PStr [])) (\<lambda>industry_name.
     bindE (py_get company ''companyPageUrl'' (PStr [])) (\<lambda>url.
     bindE (py_get company ''staffCountRange'' (PDict [])) (\<lambda>range1.
     bindE (py_get range1 ''start'' (PStr [])) (\<lambda>range_start.
     bindE (py_get company ''staffCountRange'' (PDict [])) (\<lambda>range2.
     bindE (py_get range2 ''end'' (PStr [])) (\<lambda>range_end.
     bindE (py_get company ''description'' (PStr [])) (\<lambda>description.
     Inr (''\<newline>        Nombre: '' @ py_str pr name
          @ ''\<newline>        Industria: '' @ py_str pr industry_name
          @ ''\<newline>        Sitio Web: '' @ py_str pr url
          @ ''\<newline>        Tama'' @ n_tilde @ ''o: '' @ py_str pr range_start
          @ '' - '' @ py_str pr range_end
          @ '' empleados''
          @ ''\<newline>        Descripci'' @ o_acute @ ''n: '' @ py_str pr description
          @ ''\<newline>        '')))))))))"

definition get_company :: "world \<Rightarrow> string \<Rightarrow> outcome \<times> event list" where
  "get_company w company_id = with_client w (\<lambda>client.
     guarded (printable w) (''Error al obtener informaci'' @ o_acute @ ''n de la empresa: '')
       (call_then client (Get_company company_id) (company_text (printable w))))"

definition connection_line :: "(nat \<Rightarrow> bool) \<Rightarrow> pyval \<Rightarrow> exn + string" where
  "connection_line pr connection =
     bindE (py_get connection ''firstName'' (PStr [])) (\<lambda>first_name.
     bindE (py_get connection ''lastName'' (PStr [])) (\<lambda>last_name.
     bindE (py_get connection ''headline'' (PStr [])) (\<lambda>headline.
     Inr (''- '' @ py_str pr first_name @ '' '' @ py_str pr last_name @ '': '' @ py_str pr headline
          @ ''\<newline>''))))"

definition get_connections :: "world \<Rightarrow> int \<Rightarrow> outcome \<times> event list" where
  "get_connections w limit = with_client w (\<lambda>client.
     guarded (printable w) ''Error al obtener conexiones: ''
       (call_then client (Get_connections limit)
          (listing ''Conexiones:\<newline>'' (connection_line (printable w)))))"

definition join_group :: "world \<Rightarrow> string \<Rightarrow> outcome \<times> event list" where
  "join_group w group_id = with_client w (\<lambda>client.
     guarded (printable w) ''Error al unirse al grupo: ''
       (call_then client (Join_group group_id)
          (\<lambda>result. Inr (''Unido al grupo exitosamente: '' @ py_str (printable w) result))))"

definition group_post_line :: "(nat \<Rightarrow> bool) \<Rightarrow> pyval \<Rightarrow> exn + string" where
  "group_post_line pr post =
     bindE (py_get post ''author'' (PStr [])) (\<lambda>author.
     bindE (py_get post ''content'' (PStr [])) (\<lambda>content.
     Inr (''- '' @ py_str pr author @ '': '' @ py_str pr content @ ''\<newline>'')))"

definition get_group_posts :: "world \<Rightarrow> string \<Rightarrow> int \<Rightarrow> outcome \<times> event list" where
  "get_group_posts w group_id limit = with_client w (\<lambda>client.
     guarded (printable w) ''Error al obtener posts del grupo: ''
       (call_then client (Get_group_posts group_id limit)
          (listing (''Posts del grupo '' @ group_id @ '':\<newline>'') (group_post_line (printable w)))))"

definition send_invitation :: "world \<Rightarrow> string \<Rightarrow> string option \<Rightarrow> outcome \<times> event list" where
  "send_invitation w public_id message = with_client w (\<lambda>client.
     guarded (printable w) (''Error al enviar invitaci'' @ o_acute @ ''n: '')
       (call_then client (Send_invitation public_id message)
          (\<lambda>result. Inr (''Invitaci'' @ o_acute @ ''n enviada exitosamente: '' @ py_str (printable w) result))))"

definition invitation_line :: "(nat \<Rightarrow> bool) \<Rightarrow> pyval \<Rightarrow> exn + string" where
  "invitation_line pr invitation =
     bindE (py_get invitation ''fromMember'' (PDict [])) (\<lambda>member1.
     bindE (py_get member1 ''firstName'' (PStr [])) (\<lambda>first_name.
     bindE (py_get invitation ''fromMember'' (PDict [])) (\<lambda>member2.
     bindE (py_get member2 ''lastName'' (PStr [])) (\<lambda>last_name.
     Inr (''- De: '' @ py_str pr first_name @ '' '' @ py_str pr last_name @ ''\<newline>'')))))"

definition get_pending_invitations :: "world \<Rightarrow> int \<Rightarrow> outcome \<times> event list" where
  "get_pending_invitations w limit = with_client w (\<lambda>client.
     guarded (printable w) ''Error al obtener invitaciones pendientes: ''
       (call_then client (Get_invitations limit)
          (listing ''Invitaciones pendientes:\<newline>'' (invitation_line (printable w)))))"

definition send_message :: "world \<Rightarrow> pyval list \<Rightarrow> string \<Rightarrow> outcome \<times> event list" where
  "send_message w recipients message = with_client w (\<lambda>client.
     guarded (printable w) ''Error al enviar mensaje: ''
       (call_then client (Send_message recipients message)
          (\<lambda>result. Inr (''Mensaje enviado exitosamente: '' @ py_str (printable w) result))))"

definition conversation_line :: "(nat \<Rightarrow> bool) \<Rightarrow> pyval \<Rightarrow> exn + string" where
  "conversation_line pr conv =
     bindE (py_get conv ''participants'' (PList [])) (\<lambda>participants1.
     bindE (py_first participants1) (\<lambda>participant1.
     bindE (py_get participant1 ''firstName'' (PStr [])) (\<lambda>first_name.
     bindE (py_get conv ''participants'' (PList [])) (\<lambda>participants2.
     bindE (py_first participants2) (\<lambda>participant2.
     bindE (py_get participant2 ''lastName'' (PStr [])) (\<lambda>last_name.
     Inr (''- Con: '' @ py_str pr first_name @ '' '' @ py_str pr last_name @ ''\<newline>'')))))))"

definition get_conversations :: "world \<Rightarrow> int \<Rightarrow> outcome \<times> event list" where
  "get_conversations w limit = with_client w (\<lambda>client.
     guarded (printable w) ''Error al obtener conversaciones: ''
       (call_then client (Get_conversations limit)
          (listing ''Conversaciones recientes:\<newline>'' (conversation_line (printable w)))))"

text \<open>
  \<^verbatim>\<open>data: dict = None\<close>. With action \<^verbatim>\<open>'post'\<close> the argument \<^verbatim>\<open>data.get('content', '')\<close>
  is evaluated before \<^verbatim>\<open>company_share\<close> is called. The \<^verbatim>\<open>else\<close> branch returns from
  inside the \<^verbatim>\<open>try\<close>; the three others go on to the success text.
\<close>

definition data_value :: "(string \<times> pyval) list option \<Rightarrow> pyval" where
  "data_value data = (case data of None \<Rightarrow> PNone | Some kvs \<Rightarrow> PDict kvs)"

definition invalid_action :: string where
  "invalid_action = ''Acci'' @ o_acute @ ''n no v'' @ a_acute @ ''lida''"

definition completed :: "(nat \<Rightarrow> bool) \<Rightarrow> pyval \<Rightarrow> exn + string" where
  "completed pr result = Inr (''Operaci'' @ o_acute @ ''n completada exitosamente: '' @ py_str pr result)"

definition manage_company_page ::
  "world \<Rightarrow> string \<Rightarrow> string \<Rightarrow> (string \<times> pyval) list option \<Rightarrow> outcome \<times> event list" where
  "manage_company_page w company_id action data = with_client w (\<lambda>client.
     guarded (printable w) (''Error en la operaci'' @ o_acute @ ''n de p'' @ a_acute @ ''gina de empresa: '')
       (if action = ''update''
        then call_then client (Update_company_page company_id (data_value data)) (completed (printable w))
        else if action = ''post''
        then (case py_get (data_value data) ''content'' (PStr []) of
                Inl e \<Rightarrow> (Inl e, [])
              | Inr content \<Rightarrow> call_then client (Company_share company_id content) (completed (printable w)))
        else if action = ''get_analytics''
        then call_then client (Get_company_analytics company_id) (completed (printable w))
        else (Inr invalid_action, [])))"

definition stats_text :: "(nat \<Rightarrow> bool) \<Rightarrow> string \<Rightarrow> pyval \<Rightarrow> exn + string" where
  "stats_text pr post_id stats =
     bindE (py_get stats ''numLikes'' (PInt 0)) (\<lambda>likes.
     bindE (py_get stats ''numComments'' (PInt 0)) (\<lambda>comments.
     bindE (py_get stats ''numShares'' (PInt 0)) (\<lambda>shares.
     bindE (py_get stats ''impressionCount'' (PInt 0)) (\<lambda>impressions.
     bindE (py_get stats ''engagementRate'' (PStr ''0%'')) (\<lambda>rate.
     Inr (''\<newline>        Estad'' @ i_acute @ ''sticas del post '' @ post_id @ '':''
          @ ''\<newline>        Likes: '' @ py_str pr likes
          @ ''\<newline>        Comentarios: '' @ py_str pr comments
          @ ''\<newline>        Compartidos: '' @ py_str pr shares
          @ ''\<newline>        Impresiones: '' @ py_str pr impressions
          @ ''\<newline>        Engagement: '' @ py_str pr rate
          @ ''\<newline>        ''))))))"

definition get_post_analytics :: "world \<Rightarrow> string \<Rightarrow> outcome \<times> event list" where
  "get_post_analytics w post_id = with_client w (\<lambda>client.
     guarded (printable w) (''Error al obtener estad'' @ i_acute @ ''sticas del post: '')
       (call_then client (Get_post_stats post_id) (stats_text (printable w) post_id)))"

section \<open>Reading a run\<close>

text \<open>
  The delegated calls of a run in order, and the exceptions the client raised in them.
\<close>

fun calls :: "event list \<Rightarrow> call list" where
  "calls [] = []"
| "calls (Invoked c r # tr) = c # calls tr"
| "calls (Logged m # tr) = calls tr"

fun failures :: "event list \<Rightarrow> exn list" where
  "failures [] = []"
| "failures (Invoked c (Inl e) # tr) = e # failures tr"
| "failures (Invoked c (Inr v) # tr) = failures tr"
| "failures (Logged m # tr) = failures tr"

text \<open>
  The answer of the freshly constructed client to \<open>c\<close> as its first call; \<open>None\<close> when
  the construction of the client itself raises.
\<close>

definition first_answer :: "world \<Rightarrow> call \<Rightarrow> (exn + pyval) option" where
  "first_answer w c = (case get_client w of Inl e \<Rightarrow> None | Inr client \<Rightarrow> Some (client [] c))"

text \<open>
  A test double: the credentials are not set, the client is constructed all the same
  and answers every call by \<open>f\<close>, whatever happened before.
\<close>

definition stub_world :: "(call \<Rightarrow> exn + pyval) \<Rightarrow> world" where
  "stub_world f = \<lparr> getenv = (\<lambda>name. None), Linkedin = (\<lambda>email password. Inr (\<lambda>tr. f)),
       printable = (\<lambda>cp. True) \<rparr>"

text \<open>A world in which \<^verbatim>\<open>Linkedin(...)\<close> raises, as a failed login does.\<close>

definition no_login_world :: "exn \<Rightarrow> world" where
  "no_login_world e = \<lparr> getenv = (\<lambda>name. None), Linkedin = (\<lambda>email password. Inl e),
       printable = (\<lambda>cp. True) \<rparr>"

section \<open>Properties\<close>

subsection \<open>Facts about the building blocks\<close>

lemma first_answer_SomeD:
  "first_answer w c = Some r \<Longrightarrow> \<exists>client. get_client w = Inr client \<and> client [] c = r"
  by (auto simp: first_answer_def split: sum.splits)

lemma invoke_eq: "invoke client c tr = (client tr c, tr @ [Invoked c (client tr c)])"
  by (simp add: invoke_def Let_def)

lemma call_then_ok:
  "client [] c = Inr v \<Longrightarrow> call_then client c fmt = (fmt v, [Invoked c (Inr v)])"
  by (simp add: call_then_def invoke_eq)

lemma guarded_call_ok:
  "first_answer w c = Some (Inr v) \<Longrightarrow>
   with_client w (\<lambda>client. guarded pr p (call_then client c fmt)) =
     guarded pr p (fmt v, [Invoked c (Inr v)])"
  by (auto simp: with_client_def call_then_ok dest!: first_answer_SomeD)

lemma listing_empty: "py_iter v = Inr [] \<Longrightarrow> listing header line v = Inr header"
  by (simp add: listing_def bindE_def)


lemma failures_append: "failures (tr @ tr') = failures tr @ failures tr'"
  by (induction tr rule: failures.induct) simp_all

lemma calls_append: "calls (tr @ tr') = calls tr @ calls tr'"
  by (induction tr rule: calls.induct) simp_all

lemma search_jobs_loop_failures:
  "failures tr = [] \<Longrightarrow> search_jobs_loop pr client jobs acc tr = (r, tr') \<Longrightarrow>
   e \<in> set (failures tr') \<Longrightarrow> r = Inl e"
proof (induction jobs arbitrary: acc tr)
  case Nil
  then show ?case by simp
next
  case (Cons job jobs)
  show ?case
  proof (cases "job_id_of job")
    case (Inl e')
    with Cons.prems show ?thesis by simp
  next
    case (Inr job_id)
    show ?thesis
    proof (cases "client tr (Get_job job_id)")
      case (Inl e')
      with Inr Cons.prems show ?thesis
        by (auto simp: invoke_eq failures_append)
    next
      case answer: (Inr job_data)
      let ?tr = "tr @ [Invoked (Get_job job_id) (Inr job_data)]"
      have clean: "failures ?tr = []"
        using Cons.prems(1) by (simp add: failures_append)
      show ?thesis
      proof (cases "job_block pr job_data")
        case (Inl e')
        with Inr answer Cons.prems clean show ?thesis
          by (auto simp: invoke_eq)
      next
        case block: (Inr block)
        with Inr answer Cons.prems have
          "search_jobs_loop pr client jobs (acc @ block) ?tr = (r, tr')"
          by (simp add: invoke_eq)
        from Cons.IH [OF clean this Cons.prems(3)] show ?thesis .
      qed
    qed
  qed
qed


lemma stub_client [simp]: "get_client (stub_world f) = Inr (\<lambda>tr. f)"
  by (simp add: get_client_def stub_world_def)

lemma no_login_client [simp]: "get_client (no_login_world e) = Inl e"
  by (simp add: get_client_def no_login_world_def)



subsection \<open>C1: the guarded tools turn a failure of the client into text\<close>

lemma guarded_call_fail:
  "first_answer w c = Some (Inl e) \<Longrightarrow>
   with_client w (\<lambda>client. guarded pr p (call_then client c fmt)) =
     (Returned (''Error: '' @ exn_str pr e), [Invoked c (Inl e), Logged (p @ exn_str pr e)])"
  by (auto simp: with_client_def guarded_def call_then_def invoke_eq dest!: first_answer_SomeD)

text \<open>
  Claim C1. For each of the thirteen tools with a \<^verbatim>\<open>try\<close> around the delegated call
  (the feed retrieval included; \<^verbatim>\<open>manage_company_page\<close> with each of its three
  actions): when the client raises \<open>e\<close> in the delegated call the tool makes, the tool
  returns normally, its result is \<^verbatim>\<open>"Error: "\<close> followed by \<^verbatim>\<open>str(e)\<close>, and the run
  consists of that one call and the logging of the error. Nothing is propagated to the
  caller.
\<close>

theorem guarded_tools_report_client_failure:
  "(first_answer w (Get_feed_posts limit offset) = Some (Inl e) \<longrightarrow>
      get_feed_posts w limit offset =
        (Returned (''Error: '' @ exn_str (printable w) e),
         [Invoked (Get_feed_posts limit offset) (Inl e),
          Logged (''Error: '' @ exn_str (printable w) e)]))
   \<and> (first_answer w (Post comment visibility_code) = Some (Inl e) \<longrightarrow>
      create_share_update w comment visibility_code =
        (Returned (''Error: '' @ exn_str (printable w) e),
         [Invoked (Post comment visibility_code) (Inl e),
          Logged (''Error al crear el post: '' @ exn_str (printable w) e)]))
   \<and> (first_answer w (Get_profile (if truthy public_id then public_id else None))
        = Some (Inl e) \<longrightarrow>
      get_profile w public_id =
        (Returned (''Error: '' @ exn_str (printable w) e),
         [Invoked (Get_profile (if truthy public_id then public_id else None)) (Inl e),
          Logged (''Error al obtener el perfil: '' @ exn_str (printable w) e)]))
   \<and> (first_answer w (Get_company company_id) = Some (Inl e) \<longrightarrow>
      get_company w company_id =
        (Returned (''Error: '' @ exn_str (printable w) e),
         [Invoked (Get_company company_id) (Inl e),
          Logged (''Error al obtener informaci'' @ o_acute @ ''n de la empresa: ''
                  @ exn_str (printable w) e)]))
   \<and> (first_answer w (Get_connections limit) = Some (Inl e) \<longrightarrow>
      get_connections w limit =
        (Returned (''Error: '' @ exn_str (printable w) e),
         [Invoked (Get_connections limit) (Inl e),
          Logged (''Error al obtener conexiones: '' @ exn_str (printable w) e)]))
   \<and> (first_answer w (Join_group group_id) = Some (Inl e) \<longrightarrow>
      join_group w group_id =
        (Returned (''Error: '' @ exn_str (printable w) e),
         [Invoked (Join_group group_id) (Inl e),
          Logged (''Error al unirse al grupo: '' @ exn_str (printable w) e)]))
   \<and> (first_answer w (Get_group_posts group_id limit) = Some (Inl e) \<longrightarrow>
      get_group_posts w group_id limit =
        (Returned (''Error: '' @ exn_str (printable w) e),
         [Invoked (Get_group_posts group_id limit) (Inl e),
          Logged (''Error al obtener posts del grupo: '' @ exn_str (printable w) e)]))
   \<and> (first_answer w (Send_invitation invitee greeting) = Some (Inl e) \<longrightarrow>
      send_invitation w invitee greeting =
        (Returned (''Error: '' @ exn_str (printable w) e),
         [Invoked (Send_invitation invitee greeting) (Inl e),
          Logged (''Error al enviar invitaci'' @ o_acute @ ''n: '' @ exn_str (printable w) e)]))
   \<and> (first_answer w (Get_invitations limit) = Some (Inl e) \<longrightarrow>
      get_pending_invitations w limit =
        (Returned (''Error: '' @ exn_str (printable w) e),
         [Invoked (Get_invitations limit) (Inl e),
          Logged (''Error al obtener invitaciones pendientes: '' @ exn_str (printable w) e)]))
   \<and> (first_answer w (Send_message recipients message) = Some (Inl e) \<longrightarrow>
      send_message w recipients message =
        (Returned (''Error: '' @ exn_str (printable w) e),
         [Invoked (Send_message recipients message) (Inl e),
          Logged (''Error al enviar mensaje: '' @ exn_str (printable w) e)]))
   \<and> (first_answer w (Get_conversations limit) = Some (Inl e) \<longrightarrow>
      get_conversations w limit =
        (Returned (''Error: '' @ exn_str (printable w) e),
         [Invoked (Get_conversations limit) (Inl e),
          Logged (''Error al obtener conversaciones: '' @ exn_str (printable w) e)]))
   \<and> (first_answer w (Update_company_page company_id (data_value data)) = Some (Inl e) \<longrightarrow>
      manage_company_page w company_id ''update'' data =
        (Returned (''Error: '' @ exn_str (printable w) e),
         [Invoked (Update_company_page company_id (data_value data)) (Inl e),
          Logged (''Error en la operaci'' @ o_acute @ ''n de p'' @ a_acute
                  @ ''gina de empresa: '' @ exn_str (printable w) e)]))
   \<and> (first_answer w (Company_share company_id
          (case map_of kvs ''content'' of Some content \<Rightarrow> content | None \<Rightarrow> PStr []))
        = Some (Inl e) \<longrightarrow>
      manage_company_page w company_id ''post'' (Some kvs) =
        (Returned (''Error: '' @ exn_str (printable w) e),
         [Invoked (Company_share company_id
            (case map_of kvs ''content'' of Some content \<Rightarrow> content | None \<Rightarrow> PStr []))
            (Inl e),
          Logged (''Error en la operaci'' @ o_acute @ ''n de p'' @ a_acute
                  @ ''gina de empresa: '' @ exn_str (printable w) e)]))
   \<and> (first_answer w (Get_company_analytics company_id) = Some (Inl e) \<longrightarrow>
      manage_company_page w company_id ''get_analytics'' data =
        (Returned (''Error: '' @ exn_str (printable w) e),
         [Invoked (Get_company_analytics company_id) (Inl e),
          Logged (''Error en la operaci'' @ o_acute @ ''n de p'' @ a_acute
                  @ ''gina de empresa: '' @ exn_str (printable w) e)]))
   \<and> (first_answer w (Get_post_stats post_id) = Some (Inl e) \<longrightarrow>
      get_post_analytics w post_id =
        (Returned (''Error: '' @ exn_str (printable w) e),
         [Invoked (Get_post_stats post_id) (Inl e),
          Logged (''Error al obtener estad'' @ i_acute @ ''sticas del post: ''
                  @ exn_str (printable w) e)]))"
proof (intro conjI impI)
  assume "first_answer w (Get_feed_posts limit offset) = Some (Inl e)"
  then show "get_feed_posts w limit offset =
        (Returned (''Error: '' @ exn_str (printable w) e),
         [Invoked (Get_feed_posts limit offset) (Inl e),
          Logged (''Error: '' @ exn_str (printable w) e)])"
    by (auto simp: get_feed_posts_def with_client_def invoke_eq dest!: first_answer_SomeD)
next
  assume "first_answer w (Get_profile (if truthy public_id then public_id else None))
        = Some (Inl e)"
  then show "get_profile w public_id =
        (Returned (''Error: '' @ exn_str (printable w) e),
         [Invoked (Get_profile (if truthy public_id then public_id else None)) (Inl e),
          Logged (''Error al obtener el perfil: '' @ exn_str (printable w) e)])"
    by (cases "truthy public_id") (simp_all add: get_profile_def guarded_call_fail)
next
  assume "first_answer w (Company_share company_id
          (case map_of kvs ''content'' of Some content \<Rightarrow> content | None \<Rightarrow> PStr []))
        = Some (Inl e)"
  then show "manage_company_page w company_id ''post'' (Some kvs) =
        (Returned (''Error: '' @ exn_str (printable w) e),
         [Invoked (Company_share company_id
            (case map_of kvs ''content'' of Some content \<Rightarrow> content | None \<Rightarrow> PStr []))
            (Inl e),
          Logged (''Error en la operaci'' @ o_acute @ ''n de p'' @ a_acute
                  @ ''gina de empresa: '' @ exn_str (printable w) e)])"
    by (simp add: manage_company_page_def data_value_def py_get_def guarded_call_fail)
qed (simp_all add: create_share_update_def get_company_def get_connections_def join_group_def
      get_group_posts_def send_invitation_def get_pending_invitations_def send_message_def
      get_conversations_def manage_company_page_def get_post_analytics_def guarded_call_fail)

theorem guarded_tools_report_client_failure_witness:
  "first_answer (stub_world (\<lambda>c. Inl (ClientError ''boom''))) (Get_connections 10)
     = Some (Inl (ClientError ''boom''))
   \<and> fst (get_feed_posts (stub_world (\<lambda>c. Inl (ClientError ''boom''))) 10 0)
       = Returned ''Error: boom''
   \<and> fst (create_share_update (stub_world (\<lambda>c. Inl (ClientError ''boom''))) ''hola'' ''anyone'')
       = Returned ''Error: boom''
   \<and> fst (get_profile (stub_world (\<lambda>c. Inl (ClientError ''boom''))) (Some ''ana''))
       = Returned ''Error: boom''
   \<and> fst (get_company (stub_world (\<lambda>c. Inl (ClientError ''boom''))) ''acme'')
       = Returned ''Error: boom''
   \<and> get_connections (stub_world (\<lambda>c. Inl (ClientError ''boom''))) 10
       = (Returned ''Error: boom'',
          [Invoked (Get_connections 10) (Inl (ClientError ''boom'')),
           Logged ''Error al obtener conexiones: boom''])
   \<and> fst (join_group (stub_world (\<lambda>c. Inl (ClientError ''boom''))) ''g1'')
       = Returned ''Error: boom''
   \<and> fst (get_group_posts (stub_world (\<lambda>c. Inl (ClientError ''boom''))) ''g1'' 10)
       = Returned ''Error: boom''
   \<and> fst (send_invitation (stub_world (\<lambda>c. Inl (ClientError ''boom''))) ''ana'' None)
       = Returned ''Error: boom''
   \<and> fst (get_pending_invitations (stub_world (\<lambda>c. Inl (ClientError ''boom''))) 10)
       = Returned ''Error: boom''
   \<and> fst (send_message (stub_world (\<lambda>c. Inl (ClientError ''boom''))) [PStr ''ana''] ''hola'')
       = Returned ''Error: boom''
   \<and> fst (get_conversations (stub_world (\<lambda>c. Inl (ClientError ''boom''))) 10)
       = Returned ''Error: boom''
   \<and> fst (manage_company_page (stub_world (\<lambda>c. Inl (ClientError ''boom''))) ''acme''
            ''update'' None) = Returned ''Error: boom''
   \<and> fst (manage_company_page (stub_world (\<lambda>c. Inl (ClientError ''boom''))) ''acme''
            ''post'' (Some [(''content'', PStr ''hola'')])) = Returned ''Error: boom''
   \<and> fst (manage_company_page (stub_world (\<lambda>c. Inl (ClientError ''boom''))) ''acme''
            ''get_analytics'' None) = Returned ''Error: boom''
   \<and> fst (get_post_analytics (stub_world (\<lambda>c. Inl (ClientError ''boom''))) ''post123'')
       = Returned ''Error: boom''"
proof -
  let ?w = "stub_world (\<lambda>c. Inl (ClientError ''boom''))"
  have answer: "first_answer ?w c = Some (Inl (ClientError ''boom''))" for c
    by (simp add: first_answer_def)
  note main = guarded_tools_report_client_failure
    [where w = ?w and e = "ClientError ''boom''" and limit = 10 and offset = 0
       and comment = "''hola''" and visibility_code = "''anyone''"
       and public_id = "Some ''ana''" and company_id = "''acme''" and group_id = "''g1''"
       and invitee = "''ana''" and greeting = None and recipients = "[PStr ''ana'']"
       and message = "''hola''" and data = None and kvs = "[(''content'', PStr ''hola'')]"
       and post_id = "''post123''"]
  show ?thesis
    using main by (simp add: answer exn_str_def truthy_def)
qed

lemma snd_unguarded: "snd (unguarded (r, tr)) = tr"
  by (cases r) (simp_all add: unguarded_def)

lemma fst_unguarded_fail: "fst (unguarded (Inl e, tr)) = Raised e"
  by (simp add: unguarded_def)

lemma search_jobs_propagates_call:
  assumes "e \<in> set (failures (snd (search_jobs w keywords limit offset location)))"
  shows "fst (search_jobs w keywords limit offset location) = Raised e"
proof (cases "get_client w")
  case (Inl e')
  with assms show ?thesis
    by (simp add: search_jobs_def with_client_def)
next
  case (Inr client)
  note run = search_jobs_def with_client_def Inr invoke_eq snd_unguarded fst_unguarded_fail
  let ?c = "Search_jobs keywords location limit offset"
  show ?thesis
  proof (cases "client [] ?c")
    case (Inl e')
    with assms show ?thesis by (simp add: run)
  next
    case answer: (Inr jobs)
    show ?thesis
    proof (cases "py_iter jobs")
      case (Inl e')
      with assms answer show ?thesis by (simp add: run)
    next
      case items: (Inr items)
      let ?tr = "[Invoked ?c (Inr jobs)]"
      obtain r tr' where loop: "search_jobs_loop (printable w) client items [] ?tr = (r, tr')"
        by (cases "search_jobs_loop (printable w) client items [] ?tr")
      with assms answer items have "e \<in> set (failures tr')"
        by (simp add: run)
      with loop have "r = Inl e"
        by (auto dest: search_jobs_loop_failures [rotated])
      with loop answer items show ?thesis by (simp add: run)
    qed
  qed
qed

subsection \<open>C2: \<^verbatim>\<open>search_jobs\<close> lets every failure through\<close>

text \<open>
  Claim C2. \<^verbatim>\<open>search_jobs\<close> has no error guard. When the construction of the client
  raises \<open>e\<close>, the tool raises \<open>e\<close> before any call; when a delegated call of the run
  (the job search or any of the job-detail fetches) raises \<open>e\<close>, the tool raises \<open>e\<close>.
  In both cases no text is returned.
\<close>

theorem search_jobs_propagates:
  "(get_client w = Inl e \<longrightarrow>
      search_jobs w keywords limit offset location = (Raised e, []))
   \<and> (e \<in> set (failures (snd (search_jobs w keywords limit offset location))) \<longrightarrow>
      fst (search_jobs w keywords limit offset location) = Raised e)"
  by (simp add: search_jobs_propagates_call) (simp add: search_jobs_def with_client_def)

theorem search_jobs_propagates_witness:
  "get_client (no_login_world (ClientError ''login'')) = Inl (ClientError ''login'')
   \<and> search_jobs (no_login_world (ClientError ''login'')) ''data engineer'' 2 0 ''Jakarta''
       = (Raised (ClientError ''login''), [])
   \<and> ClientError ''boom'' \<in> set (failures (snd (search_jobs
        (stub_world (\<lambda>c. case c of
            Search_jobs k l n off \<Rightarrow> Inr (PList [PDict [(''entityUrn'', PStr ''urn:li:job:12345'')]])
          | _ \<Rightarrow> Inl (ClientError ''boom'')))
        ''data engineer'' 2 0 ''Jakarta'')))
   \<and> fst (search_jobs
        (stub_world (\<lambda>c. case c of
            Search_jobs k l n off \<Rightarrow> Inr (PList [PDict [(''entityUrn'', PStr ''urn:li:job:12345'')]])
          | _ \<Rightarrow> Inl (ClientError ''boom'')))
        ''data engineer'' 2 0 ''Jakarta'') = Raised (ClientError ''boom'')"
proof -
  let ?w = "stub_world (\<lambda>c. case c of
            Search_jobs k l n off \<Rightarrow> Inr (PList [PDict [(''entityUrn'', PStr ''urn:li:job:12345'')]])
          | _ \<Rightarrow> Inl (ClientError ''boom''))"
  have login: "get_client (no_login_world (ClientError ''login'')) = Inl (ClientError ''login'')"
    by simp
  have boom: "ClientError ''boom''
      \<in> set (failures (snd (search_jobs ?w ''data engineer'' 2 0 ''Jakarta'')))"
    by (simp add: search_jobs_def with_client_def invoke_eq unguarded_def py_iter_def
        job_id_of_def py_getitem_def py_split_def py_last_def bindE_def Let_def)
  from search_jobs_propagates [where w = "no_login_world (ClientError ''login'')"] login
  have "search_jobs (no_login_world (ClientError ''login'')) ''data engineer'' 2 0 ''Jakarta''
       = (Raised (ClientError ''login''), [])"
    by blast
  moreover from search_jobs_propagates [where w = ?w] boom
  have "fst (search_jobs ?w ''data engineer'' 2 0 ''Jakarta'') = Raised (ClientError ''boom'')"
    by blast
  ultimately show ?thesis using login boom by simp
qed

subsection \<open>C3: the job identifier is the text after the last colon\<close>

lemma str_split_not_empty: "str_split sep s \<noteq> []"
  by (induction s) (simp_all add: Let_def)

lemma str_split_no_sep: "sep \<notin> set s \<Longrightarrow> str_split sep s = [s]"
  by (induction s) (auto simp: Let_def)

lemma str_split_two: "tl (str_split sep (p @ sep # s)) \<noteq> []"
  by (induction p) (simp_all add: Let_def str_split_not_empty)

lemma last_str_split_tail:
  "last (str_split sep (p @ sep # s)) = last (str_split sep s)"
  by (induction p) (simp_all add: Let_def str_split_not_empty str_split_two last_tl)

lemma last_segment: "sep \<notin> set s \<Longrightarrow> last (str_split sep (p @ sep # s)) = s"
  by (simp add: last_str_split_tail str_split_no_sep)

lemma py_last_split: "py_last (str_split sep s) = Inr (last (str_split sep s))"
  by (cases "str_split sep s") (simp_all add: py_last_def str_split_not_empty)

lemma search_jobs_loop_extends:
  "\<exists>rest. snd (search_jobs_loop pr client jobs acc tr) = tr @ rest"
proof (induction jobs arbitrary: acc tr)
  case Nil
  then show ?case by simp
next
  case (Cons job jobs)
  show ?case
  proof (cases "job_id_of job")
    case (Inl e)
    then show ?thesis by simp
  next
    case (Inr job_id)
    let ?tr = "tr @ [Invoked (Get_job job_id) (client tr (Get_job job_id))]"
    show ?thesis
    proof (cases "client tr (Get_job job_id)")
      case (Inl e)
      with Inr show ?thesis by (simp add: invoke_eq)
    next
      case answer: (Inr job_data)
      show ?thesis
      proof (cases "job_block pr job_data")
        case (Inl e)
        with Inr answer show ?thesis by (simp add: invoke_eq)
      next
        case block: (Inr block)
        from Cons.IH [of "acc @ block" ?tr] obtain rest where
          "snd (search_jobs_loop pr client jobs (acc @ block) ?tr) = ?tr @ rest" ..
        with Inr answer block show ?thesis by (simp add: invoke_eq)
      qed
    qed
  qed
qed

lemma search_jobs_loop_first_call:
  assumes "job_id_of job = Inr job_id"
  shows "\<exists>rest. snd (search_jobs_loop pr client (job # jobs) acc tr) =
           tr @ Invoked (Get_job job_id) (client tr (Get_job job_id)) # rest"
proof (cases "client tr (Get_job job_id)")
  case (Inl e)
  with assms show ?thesis by (simp add: invoke_eq)
next
  case answer: (Inr job_data)
  let ?tr = "tr @ [Invoked (Get_job job_id) (Inr job_data)]"
  show ?thesis
  proof (cases "job_block pr job_data")
    case (Inl e)
    with assms answer show ?thesis by (simp add: invoke_eq)
  next
    case block: (Inr block)
    from search_jobs_loop_extends [of pr client jobs "acc @ block" ?tr] obtain rest where
      "snd (search_jobs_loop pr client jobs (acc @ block) ?tr) = ?tr @ rest" ..
    with assms answer block show ?thesis by (simp add: invoke_eq)
  qed
qed

text \<open>
  Claim C3. The job identifier is what follows the last colon of the job summary's
  \<^verbatim>\<open>entityUrn\<close>: for a resource name \<open>prefix:ident\<close> whose \<open>ident\<close> holds no colon the
  extraction yields \<open>ident\<close>, and the iteration of the loop that handles this job passes
  exactly \<open>ident\<close> to the job-detail fetch as the next delegated call. For
  \<^verbatim>\<open>"urn:li:job:12345"\<close> the identifier is \<^verbatim>\<open>"12345"\<close>.
\<close>

theorem job_id_is_last_segment:
  assumes "py_getitem job ''entityUrn'' = Inr (PStr (prefix @ CHR '':'' # ident))"
    and "CHR '':'' \<notin> set ident"
  shows "job_id_of job = Inr ident
    \<and> (\<exists>rest. snd (search_jobs_loop pr client (job # jobs) acc tr) =
          tr @ Invoked (Get_job ident) (client tr (Get_job ident)) # rest)
    \<and> job_id_of (PDict [(''entityUrn'', PStr ''urn:li:job:12345'')]) = Inr ''12345''"
proof -
  from assms have id: "job_id_of job = Inr ident"
    by (simp add: job_id_of_def bindE_def py_split_def py_last_split last_segment)
  have "job_id_of (PDict [(''entityUrn'', PStr ''urn:li:job:12345'')]) = Inr ''12345''"
    by (simp add: job_id_of_def bindE_def py_getitem_def py_split_def py_last_def Let_def)
  with id search_jobs_loop_first_call [OF id] show ?thesis by blast
qed

theorem job_id_is_last_segment_witness:
  "py_getitem (PDict [(''entityUrn'', PStr ''urn:li:jobPosting:987'')]) ''entityUrn''
     = Inr (PStr (''urn:li:jobPosting'' @ CHR '':'' # ''987''))
   \<and> CHR '':'' \<notin> set ''987''
   \<and> job_id_of (PDict [(''entityUrn'', PStr ''urn:li:jobPosting:987'')]) = Inr ''987''
   \<and> job_id_of (PDict [(''entityUrn'', PStr ''urn:li:job:12345'')]) = Inr ''12345''
   \<and> calls (snd (search_jobs
        (stub_world (\<lambda>c. case c of
            Search_jobs k l n off \<Rightarrow> Inr (PList [PDict [(''entityUrn'', PStr ''urn:li:job:12345'')]])
          | _ \<Rightarrow> Inl (ClientError ''boom'')))
        ''data engineer'' 2 0 ''Jakarta''))
       = [Search_jobs ''data engineer'' ''Jakarta'' 2 0, Get_job ''12345'']"
proof -
  have run: "calls (snd (search_jobs
        (stub_world (\<lambda>c. case c of
            Search_jobs k l n off \<Rightarrow> Inr (PList [PDict [(''entityUrn'', PStr ''urn:li:job:12345'')]])
          | _ \<Rightarrow> Inl (ClientError ''boom'')))
        ''data engineer'' 2 0 ''Jakarta''))
       = [Search_jobs ''data engineer'' ''Jakarta'' 2 0, Get_job ''12345'']"
    by (simp add: search_jobs_def with_client_def invoke_eq unguarded_def py_iter_def
        job_id_of_def py_getitem_def py_split_def py_last_def bindE_def Let_def)
  have urn: "py_getitem (PDict [(''entityUrn'', PStr ''urn:li:jobPosting:987'')]) ''entityUrn''
     = Inr (PStr (''urn:li:jobPosting'' @ CHR '':'' # ''987''))"
    by (simp add: py_getitem_def)
  have colon: "CHR '':'' \<notin> set ''987''"
    by simp
  from job_id_is_last_segment [OF urn colon] urn colon run show ?thesis by blast
qed

subsection \<open>C4: an unknown action of \<^verbatim>\<open>manage_company_page\<close>\<close>

text \<open>
  Claim C4. For every action other than \<^verbatim>\<open>'update'\<close>, \<^verbatim>\<open>'post'\<close> and \<^verbatim>\<open>'get_analytics'\<close>
  the run of \<^verbatim>\<open>manage_company_page\<close> makes no delegated call and logs nothing, and,
  the client having been constructed, the result is exactly the Spanish text for
  "invalid action", \<^verbatim>\<open>Accion no valida\<close> with its two accented letters, as UTF-8 bytes.
\<close>

theorem unknown_action_is_refused:
  assumes "action \<notin> {''update'', ''post'', ''get_analytics''}"
  shows "snd (manage_company_page w company_id action data) = []
    \<and> (get_client w = Inr client \<longrightarrow>
         manage_company_page w company_id action data =
           (Returned (''Acci'' @ [CHR 0xC3, CHR 0xB3] @ ''n no v'' @ [CHR 0xC3, CHR 0xA1] @ ''lida''),
            []))"
  using assms
  by (cases "get_client w")
     (simp_all add: manage_company_page_def with_client_def guarded_def invalid_action_def
        o_acute_def a_acute_def)

theorem unknown_action_is_refused_witness:
  "''bogus'' \<notin> {''update'', ''post'', ''get_analytics''}
   \<and> get_client (stub_world (\<lambda>c. Inr PNone)) = Inr (\<lambda>tr c. Inr PNone)
   \<and> manage_company_page (stub_world (\<lambda>c. Inr PNone)) ''acme'' ''bogus'' None =
        (Returned (''Acci'' @ [CHR 0xC3, CHR 0xB3] @ ''n no v'' @ [CHR 0xC3, CHR 0xA1] @ ''lida''),
         [])"
proof -
  have action: "''bogus'' \<notin> {''update'', ''post'', ''get_analytics''}"
    by simp
  have built: "get_client (stub_world (\<lambda>c. Inr PNone)) = Inr (\<lambda>tr c. Inr PNone)"
    by simp
  from unknown_action_is_refused [OF action, of "stub_world (\<lambda>c. Inr PNone)"] built action
  show ?thesis by blast
qed

subsection \<open>C5: a listing of nothing is its header\<close>

lemma guarded_ok: "guarded pr p (Inr s, tr) = (Returned s, tr)"
  by (simp add: guarded_def)

lemma listing_tool_empty:
  assumes "first_answer w c = Some (Inr v)" and "py_iter v = Inr []"
  shows "with_client w (\<lambda>client. guarded pr p (call_then client c (listing header line))) =
           (Returned header, [Invoked c (Inr v)])"
  using assms by (simp add: guarded_call_ok listing_empty guarded_ok)

text \<open>
  Claim C5. When the delegated call answers with an iterable of no items (the empty
  list, for one), each of the six listing tools returns its header and nothing more:
  the empty text for the feed and the job search, \<^verbatim>\<open>"Conexiones:\n"\<close> for the
  connections, and the headers of the group posts, the pending invitations and the
  recent conversations.
\<close>

theorem empty_listing_is_header:
  assumes "py_iter v = Inr []"
  shows "(first_answer w (Get_feed_posts limit offset) = Some (Inr v) \<longrightarrow>
            fst (get_feed_posts w limit offset) = Returned [])
    \<and> (first_answer w (Search_jobs keywords location limit offset) = Some (Inr v) \<longrightarrow>
            fst (search_jobs w keywords limit offset location) = Returned [])
    \<and> (first_answer w (Get_connections limit) = Some (Inr v) \<longrightarrow>
            fst (get_connections w limit) = Returned ''Conexiones:\<newline>'')
    \<and> (first_answer w (Get_group_posts group_id limit) = Some (Inr v) \<longrightarrow>
            fst (get_group_posts w group_id limit) =
              Returned (''Posts del grupo '' @ group_id @ '':\<newline>''))
    \<and> (first_answer w (Get_invitations limit) = Some (Inr v) \<longrightarrow>
            fst (get_pending_invitations w limit) = Returned ''Invitaciones pendientes:\<newline>'')
    \<and> (first_answer w (Get_conversations limit) = Some (Inr v) \<longrightarrow>
            fst (get_conversations w limit) = Returned ''Conversaciones recientes:\<newline>'')"
proof -
  have feed: "first_answer w (Get_feed_posts limit offset) = Some (Inr v) \<longrightarrow>
            fst (get_feed_posts w limit offset) = Returned []"
    using assms
    by (auto simp: get_feed_posts_def with_client_def invoke_eq unguarded_def listing_empty
        dest!: first_answer_SomeD)
  have jobs: "first_answer w (Search_jobs keywords location limit offset) = Some (Inr v) \<longrightarrow>
            fst (search_jobs w keywords limit offset location) = Returned []"
    using assms
    by (auto simp: search_jobs_def with_client_def invoke_eq unguarded_def
        dest!: first_answer_SomeD)
  have connections: "first_answer w (Get_connections limit) = Some (Inr v) \<longrightarrow>
            fst (get_connections w limit) = Returned ''Conexiones:\<newline>''"
    using assms by (simp add: get_connections_def listing_tool_empty)
  have posts: "first_answer w (Get_group_posts group_id limit) = Some (Inr v) \<longrightarrow>
            fst (get_group_posts w group_id limit) =
              Returned (''Posts del grupo '' @ group_id @ '':\<newline>'')"
    using assms by (simp add: get_group_posts_def listing_tool_empty)
  have pending: "first_answer w (Get_invitations limit) = Some (Inr v) \<longrightarrow>
            fst (get_pending_invitations w limit) = Returned ''Invitaciones pendientes:\<newline>''"
    using assms by (simp add: get_pending_invitations_def listing_tool_empty)
  have conversations: "first_answer w (Get_conversations limit) = Some (Inr v) \<longrightarrow>
            fst (get_conversations w limit) = Returned ''Conversaciones recientes:\<newline>''"
    using assms by (simp add: get_conversations_def listing_tool_empty)
  from feed jobs connections posts pending conversations show ?thesis by blast
qed

theorem empty_listing_is_header_witness:
  "py_iter (PList []) = Inr []
   \<and> first_answer (stub_world (\<lambda>c. Inr (PList []))) (Get_connections 10) = Some (Inr (PList []))
   \<and> fst (get_connections (stub_world (\<lambda>c. Inr (PList []))) 10) = Returned ''Conexiones:\<newline>''
   \<and> first_answer (stub_world (\<lambda>c. Inr (PList []))) (Search_jobs ''data engineer'' ''Jakarta'' 2 0)
       = Some (Inr (PList []))
   \<and> fst (search_jobs (stub_world (\<lambda>c. Inr (PList []))) ''data engineer'' 2 0 ''Jakarta'')
       = Returned []"
proof -
  let ?w = "stub_world (\<lambda>c. Inr (PList []))"
  have none: "py_iter (PList []) = Inr []"
    by (simp add: py_iter_def)
  have c: "first_answer ?w (Get_connections 10) = Some (Inr (PList []))"
    by (simp add: first_answer_def)
  have j: "first_answer ?w (Search_jobs ''data engineer'' ''Jakarta'' 2 0) = Some (Inr (PList []))"
    by (simp add: first_answer_def)
  note main = empty_listing_is_header [OF none, where w = ?w]
  from main c have "fst (get_connections ?w 10) = Returned ''Conexiones:\<newline>''"
    by blast
  moreover from main j
  have "fst (search_jobs ?w ''data engineer'' 2 0 ''Jakarta'') = Returned []"
    by blast
  ultimately show ?thesis using none c j by simp
qed

subsection \<open>C6 and C9: which profile is fetched\<close>

lemma calls_guarded_call: "calls (snd (guarded pr p (call_then client c fmt))) = [c]"
  by (cases "client [] c"; cases "fmt (projr (client [] c))")
     (simp_all add: guarded_def call_then_def invoke_eq calls_append)

lemma calls_get_profile:
  "get_client w = Inr client \<Longrightarrow>
   calls (snd (get_profile w public_id)) =
     [Get_profile (if truthy public_id then public_id else None)]"
  by (simp add: get_profile_def with_client_def calls_guarded_call)

text \<open>
  Claim C6, as amended. The client having been constructed, \<^verbatim>\<open>get_profile\<close> without a
  public identifier makes exactly one delegated call, the profile fetch without an
  argument; with a non-empty public identifier it makes exactly one delegated call, the
  profile fetch with that identifier.
\<close>

theorem get_profile_argument:
  assumes "get_client w = Inr client"
  shows "calls (snd (get_profile w None)) = [Get_profile None]
    \<and> (public_id \<noteq> [] \<longrightarrow>
         calls (snd (get_profile w (Some public_id))) = [Get_profile (Some public_id)])"
  using assms by (simp add: calls_get_profile truthy_def)

theorem get_profile_argument_witness:
  "get_client (stub_world (\<lambda>c. Inr (PDict []))) = Inr (\<lambda>tr c. Inr (PDict []))
   \<and> ''williamhgates'' \<noteq> []
   \<and> calls (snd (get_profile (stub_world (\<lambda>c. Inr (PDict []))) None)) = [Get_profile None]
   \<and> calls (snd (get_profile (stub_world (\<lambda>c. Inr (PDict []))) (Some ''williamhgates'')))
       = [Get_profile (Some ''williamhgates'')]"
proof -
  have built: "get_client (stub_world (\<lambda>c. Inr (PDict []))) = Inr (\<lambda>tr c. Inr (PDict []))"
    by simp
  have named: "''williamhgates'' \<noteq> []"
    by simp
  from get_profile_argument [OF built, of "''williamhgates''"] built named
  show ?thesis by blast
qed

text \<open>
  The claim as stated fails for the identifier \<^verbatim>\<open>""\<close>: it is a public identifier, and
  the profile fetch is called without it.
\<close>

theorem get_profile_empty_identifier_counterexample:
  "calls (snd (get_profile (stub_world (\<lambda>c. Inr (PDict []))) (Some []))) = [Get_profile None]
   \<and> calls (snd (get_profile (stub_world (\<lambda>c. Inr (PDict []))) (Some [])))
       \<noteq> [Get_profile (Some [])]"
  by (simp add: calls_get_profile truthy_def)

text \<open>
  Claim C9. \<^verbatim>\<open>get_profile("")\<close> runs exactly as \<^verbatim>\<open>get_profile()\<close> does: the branch tests
  the truthiness of the identifier, so the own-profile branch is taken and, the client
  having been constructed, the one delegated call is the profile fetch without an
  argument.
\<close>

theorem empty_identifier_is_own_profile:
  "get_profile w (Some []) = get_profile w None
   \<and> (get_client w = Inr client \<longrightarrow>
        calls (snd (get_profile w (Some []))) = [Get_profile None])"
  by (simp add: calls_get_profile truthy_def) (simp add: get_profile_def truthy_def)

theorem empty_identifier_is_own_profile_witness:
  "get_client (stub_world (\<lambda>c. Inr (PDict [(''firstName'', PStr ''Ana'')])))
     = Inr (\<lambda>tr c. Inr (PDict [(''firstName'', PStr ''Ana'')]))
   \<and> calls (snd (get_profile (stub_world (\<lambda>c. Inr (PDict [(''firstName'', PStr ''Ana'')])))
        (Some []))) = [Get_profile None]
   \<and> get_profile (stub_world (\<lambda>c. Inr (PDict [(''firstName'', PStr ''Ana'')]))) (Some [])
     = get_profile (stub_world (\<lambda>c. Inr (PDict [(''firstName'', PStr ''Ana'')]))) None"
proof -
  let ?w = "stub_world (\<lambda>c. Inr (PDict [(''firstName'', PStr ''Ana'')]))"
  have built: "get_client ?w = Inr (\<lambda>tr c. Inr (PDict [(''firstName'', PStr ''Ana'')]))"
    by simp
  from empty_identifier_is_own_profile [of ?w] built show ?thesis by blast
qed

subsection \<open>C10: action \<^verbatim>\<open>'post'\<close> without data\<close>

text \<open>
  Claim C10. \<^verbatim>\<open>manage_company_page(company_id, 'post')\<close> with \<^verbatim>\<open>data\<close> left at \<^verbatim>\<open>None\<close>
  makes no delegated call: \<^verbatim>\<open>data.get\<close> raises an \<^verbatim>\<open>AttributeError\<close> inside the
  \<^verbatim>\<open>try\<close> before \<^verbatim>\<open>company_share\<close> is called. The client having been constructed, the
  tool logs the error and returns normally the text
  \<^verbatim>\<open>Error: 'NoneType' object has no attribute 'get'\<close>.
\<close>

theorem post_without_data_is_reported:
  "calls (snd (manage_company_page w company_id ''post'' None)) = []
   \<and> (get_client w = Inr client \<longrightarrow>
        fst (manage_company_page w company_id ''post'' None) =
          Returned (''Error: '' @ [CHR 0x27] @ ''NoneType'' @ [CHR 0x27]
                    @ '' object has no attribute '' @ [CHR 0x27] @ ''get'' @ [CHR 0x27]))"
  by (cases "get_client w")
     (simp_all add: manage_company_page_def with_client_def guarded_def data_value_def
        py_get_def no_attribute_def type_name_def exn_str_def sq_def)

theorem post_without_data_is_reported_witness:
  "get_client (stub_world (\<lambda>c. Inr PNone)) = Inr (\<lambda>tr c. Inr PNone)
   \<and> calls (snd (manage_company_page (stub_world (\<lambda>c. Inr PNone)) ''acme'' ''post'' None)) = []
   \<and> fst (manage_company_page (stub_world (\<lambda>c. Inr PNone)) ''acme'' ''post'' None) =
          Returned (''Error: '' @ [CHR 0x27] @ ''NoneType'' @ [CHR 0x27]
                    @ '' object has no attribute '' @ [CHR 0x27] @ ''get'' @ [CHR 0x27])"
proof -
  have built: "get_client (stub_world (\<lambda>c. Inr PNone)) = Inr (\<lambda>tr c. Inr PNone)"
    by simp
  from post_without_data_is_reported [of "stub_world (\<lambda>c. Inr PNone)" "''acme''"] built
  show ?thesis by blast
qed

subsection \<open>C8: the formatting loop of \<^verbatim>\<open>get_feed_posts\<close> is outside the \<^verbatim>\<open>try\<close>\<close>

lemma for_lines_fails:
  "x \<in> set xs \<Longrightarrow> line x = Inl e \<Longrightarrow> \<exists>e'. for_lines line xs acc = Inl e'"
proof (induction xs arbitrary: acc)
  case Nil
  then show ?case by simp
next
  case (Cons y ys)
  then show ?case
    by (cases "line y") auto
qed

lemma feed_line_missing_field:
  "map_of kvs ''author_name'' = None \<or> map_of kvs ''content'' = None \<Longrightarrow>
   feed_line pr (PDict kvs) =
     Inl (KeyError (PStr (if map_of kvs ''author_name'' = None then ''author_name''
                          else ''content'')))"
  by (auto simp: feed_line_def bindE_def py_getitem_def)

text \<open>
  Claim C8. In \<^verbatim>\<open>get_feed_posts\<close> only the delegated call is guarded: when it raises
  \<open>e\<close> the tool returns \<^verbatim>\<open>"Error: "\<close> and \<^verbatim>\<open>str(e)\<close>. When it answers with items of which
  one is a dict without \<^verbatim>\<open>author_name\<close> or without \<^verbatim>\<open>content\<close>, the formatting loop
  raises, and the exception leaves the tool: nothing is returned and nothing is logged.
  When that item is the first one, the exception is the \<^verbatim>\<open>KeyError\<close> of the first
  missing field.
\<close>

theorem feed_formatting_is_unguarded:
  "(first_answer w (Get_feed_posts limit offset) = Some (Inl e) \<longrightarrow>
      fst (get_feed_posts w limit offset) = Returned (''Error: '' @ exn_str (printable w) e))
   \<and> (first_answer w (Get_feed_posts limit offset) = Some (Inr v) \<and> py_iter v = Inr items
       \<and> PDict kvs \<in> set items
       \<and> (map_of kvs ''author_name'' = None \<or> map_of kvs ''content'' = None) \<longrightarrow>
      (\<exists>e'. get_feed_posts w limit offset =
              (Raised e', [Invoked (Get_feed_posts limit offset) (Inr v)])))
   \<and> (first_answer w (Get_feed_posts limit offset) = Some (Inr v)
       \<and> py_iter v = Inr (PDict kvs # others)
       \<and> (map_of kvs ''author_name'' = None \<or> map_of kvs ''content'' = None) \<longrightarrow>
      fst (get_feed_posts w limit offset) =
        Raised (KeyError (PStr (if map_of kvs ''author_name'' = None then ''author_name''
                                else ''content''))))"
proof -
  have guarded_part: "first_answer w (Get_feed_posts limit offset) = Some (Inl e) \<longrightarrow>
      fst (get_feed_posts w limit offset) = Returned (''Error: '' @ exn_str (printable w) e)"
    by (auto simp: get_feed_posts_def with_client_def invoke_eq dest!: first_answer_SomeD)
  have any_item: "\<exists>e'. get_feed_posts w limit offset =
              (Raised e', [Invoked (Get_feed_posts limit offset) (Inr v)])"
    if answer: "first_answer w (Get_feed_posts limit offset) = Some (Inr v)"
      and items: "py_iter v = Inr items"
      and item: "PDict kvs \<in> set items"
      and missing: "map_of kvs ''author_name'' = None \<or> map_of kvs ''content'' = None"
  proof -
    from for_lines_fails [where line = "feed_line (printable w)" and acc = "[]", OF item
        feed_line_missing_field [OF missing]]
    obtain e' where "for_lines (feed_line (printable w)) items [] = Inl e'" ..
    with answer items show ?thesis
      by (auto simp: get_feed_posts_def with_client_def invoke_eq unguarded_def listing_def
          bindE_def dest!: first_answer_SomeD)
  qed
  have first_item: "fst (get_feed_posts w limit offset) =
        Raised (KeyError (PStr (if map_of kvs ''author_name'' = None then ''author_name''
                                else ''content'')))"
    if answer: "first_answer w (Get_feed_posts limit offset) = Some (Inr v)"
      and items: "py_iter v = Inr (PDict kvs # others)"
      and missing: "map_of kvs ''author_name'' = None \<or> map_of kvs ''content'' = None"
    using answer items feed_line_missing_field [OF missing]
    by (auto simp: get_feed_posts_def with_client_def invoke_eq unguarded_def listing_def
        bindE_def dest!: first_answer_SomeD)
  from guarded_part any_item first_item show ?thesis by blast
qed

theorem feed_formatting_is_unguarded_witness:
  "first_answer (stub_world (\<lambda>c. Inr (PList [PDict [(''author_name'', PStr ''Ana'')]])))
      (Get_feed_posts 10 0) = Some (Inr (PList [PDict [(''author_name'', PStr ''Ana'')]]))
   \<and> py_iter (PList [PDict [(''author_name'', PStr ''Ana'')]])
       = Inr (PDict [(''author_name'', PStr ''Ana'')] # [])
   \<and> map_of [(''author_name'', PStr ''Ana'')] ''content'' = None
   \<and> fst (get_feed_posts (stub_world (\<lambda>c. Inr (PList [PDict [(''author_name'', PStr ''Ana'')]])))
        10 0) = Raised (KeyError (PStr ''content''))
   \<and> first_answer (stub_world (\<lambda>c. Inl (ClientError ''boom''))) (Get_feed_posts 10 0)
       = Some (Inl (ClientError ''boom''))
   \<and> fst (get_feed_posts (stub_world (\<lambda>c. Inl (ClientError ''boom''))) 10 0)
       = Returned ''Error: boom''"
proof -
  let ?kvs = "[(''author_name'', PStr ''Ana'')]"
  let ?w = "stub_world (\<lambda>c. Inr (PList [PDict ?kvs]))"
  let ?b = "stub_world (\<lambda>c. Inl (ClientError ''boom''))"
  have answer: "first_answer ?w (Get_feed_posts 10 0) = Some (Inr (PList [PDict ?kvs]))"
    by (simp add: first_answer_def)
  have items: "py_iter (PList [PDict ?kvs]) = Inr (PDict ?kvs # [])"
    by (simp add: py_iter_def)
  have missing: "map_of ?kvs ''content'' = None"
    by simp
  have boom: "first_answer ?b (Get_feed_posts 10 0) = Some (Inl (ClientError ''boom''))"
    by (simp add: first_answer_def)
  from feed_formatting_is_unguarded
    [where w = ?w and limit = 10 and offset = 0 and kvs = ?kvs and others = "[]"] answer items missing
  have "fst (get_feed_posts ?w 10 0) =
        Raised (KeyError (PStr (if map_of ?kvs ''author_name'' = None then ''author_name''
                                else ''content'')))"
    by blast
  then have raised: "fst (get_feed_posts ?w 10 0) = Raised (KeyError (PStr ''content''))"
    by simp
  from feed_formatting_is_unguarded [where w = ?b and limit = 10 and offset = 0] boom
  have "fst (get_feed_posts ?b 10 0) = Returned (''Error: '' @ exn_str (printable ?b) (ClientError ''boom''))"
    by blast
  then have "fst (get_feed_posts ?b 10 0) = Returned ''Error: boom''"
    by (simp add: exn_str_def)
  with raised answer items missing boom show ?thesis by blast
qed

subsection \<open>C7: missing fields in the formatted answers\<close>

text \<open>
  The formatters of the guarded tools read every field with \<^verbatim>\<open>.get(key, default)\<close>.
  On a dict they cannot fail, whichever keys are missing, as long as a nested
  \<^verbatim>\<open>staffCountRange\<close> or \<^verbatim>\<open>fromMember\<close>, when present, is a dict too.
\<close>

lemma py_get_dict: "py_get (PDict kvs) key dflt = Inr (case map_of kvs key of Some x \<Rightarrow> x | None \<Rightarrow> dflt)"
  by (simp add: py_get_def)

lemma flat_formatters_default:
  "(\<exists>s. profile_text pr (PDict kvs) = Inr s)
   \<and> (\<exists>s. connection_line pr (PDict kvs) = Inr s)
   \<and> (\<exists>s. group_post_line pr (PDict kvs) = Inr s)
   \<and> (\<exists>s. stats_text pr post_id (PDict kvs) = Inr s)"
  by (simp add: profile_text_def connection_line_def group_post_line_def stats_text_def
      bindE_def py_get_dict)

lemma nested_formatters_default:
  "(map_of kvs ''staffCountRange'' = None \<or> map_of kvs ''staffCountRange'' = Some (PDict r)
      \<longrightarrow> (\<exists>s. company_text pr (PDict kvs) = Inr s))
   \<and> (map_of kvs ''fromMember'' = None \<or> map_of kvs ''fromMember'' = Some (PDict r)
      \<longrightarrow> (\<exists>s. invitation_line pr (PDict kvs) = Inr s))"
  by (auto simp: company_text_def invitation_line_def bindE_def py_get_dict)

lemma conversation_line_no_participants:
  "map_of kvs ''participants'' = None \<or> map_of kvs ''participants'' = Some (PList []) \<Longrightarrow>
   conversation_line pr (PDict kvs) = Inl (IndexError ''list index out of range'')"
  by (auto simp: conversation_line_def bindE_def py_get_dict py_first_def)

text \<open>
  Claim C7 does not hold for \<^verbatim>\<open>get_conversations\<close>. The default of a missing
  \<^verbatim>\<open>participants\<close> is the empty list, and \<^verbatim>\<open>[0]\<close> on it raises an \<^verbatim>\<open>IndexError\<close>: for a
  conversation without participants (the key missing, or its list empty) the formatting
  step raises, and the tool returns the error text instead of the listing. For the same
  shape \<^verbatim>\<open>get_pending_invitations\<close>, whose default is the empty dict, writes a line
  with empty names.
\<close>

theorem conversation_without_participants_raises:
  "get_conversations (stub_world (\<lambda>c. Inr (PList [PDict []]))) 10 =
     (Returned ''Error: list index out of range'',
      [Invoked (Get_conversations 10) (Inr (PList [PDict []])),
       Logged ''Error al obtener conversaciones: list index out of range''])
   \<and> fst (get_conversations
        (stub_world (\<lambda>c. Inr (PList [PDict [(''participants'', PList [])]]))) 10) =
       Returned ''Error: list index out of range''
   \<and> fst (get_pending_invitations (stub_world (\<lambda>c. Inr (PList [PDict []]))) 10) =
       Returned ''Invitaciones pendientes:\<newline>- De:  \<newline>''"
  by (simp add: get_conversations_def get_pending_invitations_def with_client_def guarded_def
      call_then_def invoke_eq listing_def py_iter_def bindE_def conversation_line_def
      invitation_line_def py_get_dict py_first_def exn_str_def py_str_def)

subsection \<open>More facts about the tools\<close>

text \<open>
  \<^verbatim>\<open>get_client()\<close> is called before the \<^verbatim>\<open>try\<close> in every tool, the guarded ones
  included: when the construction of the client raises, every tool raises, before any
  delegated call and without logging.
\<close>

lemma client_construction_is_unguarded:
  assumes "get_client w = Inl e"
  shows "get_feed_posts w limit offset = (Raised e, [])"
    and "search_jobs w keywords limit offset location = (Raised e, [])"
    and "create_share_update w comment visibility_code = (Raised e, [])"
    and "get_profile w public_id = (Raised e, [])"
    and "get_company w company_id = (Raised e, [])"
    and "get_connections w limit = (Raised e, [])"
    and "join_group w group_id = (Raised e, [])"
    and "get_group_posts w group_id limit = (Raised e, [])"
    and "send_invitation w invitee greeting = (Raised e, [])"
    and "get_pending_invitations w limit = (Raised e, [])"
    and "send_message w recipients message = (Raised e, [])"
    and "get_conversations w limit = (Raised e, [])"
    and "manage_company_page w company_id action data = (Raised e, [])"
    and "get_post_analytics w post_id = (Raised e, [])"
  using assms
  by (simp_all add: with_client_def get_feed_posts_def search_jobs_def create_share_update_def
      get_profile_def get_company_def get_connections_def join_group_def get_group_posts_def
      send_invitation_def get_pending_invitations_def send_message_def get_conversations_def
      manage_company_page_def get_post_analytics_def)

text \<open>The scenario of the specification for \<^verbatim>\<open>get_post_analytics("post123")\<close>.\<close>

lemma post_analytics_scenario:
  "fst (get_post_analytics
     (stub_world (\<lambda>c. Inr (PDict [(''numLikes'', PInt 5), (''numComments'', PInt 2),
        (''numShares'', PInt 1), (''impressionCount'', PInt 100),
        (''engagementRate'', PStr ''3%'')])))
     ''post123'') =
   Returned (''\<newline>        Estad'' @ [CHR 0xC3, CHR 0xAD] @ ''sticas del post post123:''
     @ ''\<newline>        Likes: 5''
     @ ''\<newline>        Comentarios: 2''
     @ ''\<newline>        Compartidos: 1''
     @ ''\<newline>        Impresiones: 100''
     @ ''\<newline>        Engagement: 3%''
     @ ''\<newline>        '')"
  by (simp add: get_post_analytics_def with_client_def guarded_def call_then_def invoke_eq
      stats_text_def bindE_def py_get_def py_str_def str_of_int_def hex_digit_def i_acute_def)

text \<open>
  \<^verbatim>\<open>repr\<close> of the list of the three texts \<^verbatim>\<open>'a\xa0b'\<close>, \<^verbatim>\<open>'z\u200b'\<close> and \<^verbatim>\<open>'\xf1'\<close>,
  the no-break space and the zero-width space not being printable and the letter
  U+00F1 being so; and \<^verbatim>\<open>repr({'k': -120, "it's": ''})\<close>.
\<close>

lemma py_repr_examples:
  "py_repr (\<lambda>cp. cp \<notin> {0xA0, 0x200B})
     (PList [PStr [CHR ''a'', CHR 0xC2, CHR 0xA0, CHR ''b''],
             PStr [CHR ''z'', CHR 0xE2, CHR 0x80, CHR 0x8B],
             PStr [CHR 0xC3, CHR 0xB1]])
   = ''['' @ [CHR 0x27] @ ''a'' @ [CHR 0x5C] @ ''xa0b'' @ [CHR 0x27] @ '', ''
     @ [CHR 0x27] @ ''z'' @ [CHR 0x5C] @ ''u200b'' @ [CHR 0x27] @ '', ''
     @ [CHR 0x27, CHR 0xC3, CHR 0xB1, CHR 0x27] @ '']''"
  "py_repr pr (PDict [(''k'', PInt (- 120)), (''it'' @ [CHR 0x27] @ ''s'', PStr [])])
   = ''{'' @ [CHR 0x27] @ ''k'' @ [CHR 0x27] @ '': -120, '' @ [CHR 0x22] @ ''it''
     @ [CHR 0x27] @ ''s'' @ [CHR 0x22] @ '': '' @ [CHR 0x27, CHR 0x27] @ ''}''"
  by (simp_all add: repr_str_def repr_quote_def repr_char_def repr_ascii_def repr_escape_def
      code_point_def utf8_width_def hex_pad_def hex_digit_def str_of_int_def upt_rec Let_def)

end
